theory Spec2Isabelle
  imports Main
begin

section \<open>Exceptions and HTTP errors\<close>

text \<open>
  The exceptions the handlers meet. \<open>ValueError msg\<close> is a \<^verbatim>\<open>ValueError(msg)\<close> raised by
  the source itself; \<open>InvalidLiteral s\<close> is the \<^verbatim>\<open>ValueError\<close> that the builtins
  \<^verbatim>\<open>int()\<close> and \<^verbatim>\<open>float()\<close> raise on the text \<open>s\<close>; \<open>TypeError\<close> is raised by the
  interpreter on an operand of the wrong type; \<open>ClientError msg\<close> is a failure reported by
  the store client.

  Every route body is wrapped in \<^verbatim>\<open>except Exception as e: raise HTTPException(500, detail=str(e))\<close>;
  the detail \<open>StrOf e\<close> stands for \<^verbatim>\<open>str(e)\<close>.
\<close>

datatype exn = ValueError string | InvalidLiteral string | TypeError | ClientError string

datatype detail = Text string | StrOf exn

datatype http_exception = HTTPException nat detail "(string \<times> string) list"

section \<open>Python values and builtins\<close>

text \<open>
  A Python \<^verbatim>\<open>float\<close> is identified with the shortest decimal that \<^verbatim>\<open>str\<close> prints for it:
  \<open>Finite neg m e\<close> is the number \<open>m * 10 ^ e\<close> (negative when \<open>neg\<close>), with \<open>m\<close> not a
  multiple of ten, and zero written \<open>Finite neg 0 0\<close>. This is an idealisation: the binary
  rounding of a literal with more than 15 significant digits and the overflow of the
  exponent range are not modelled. An \<^verbatim>\<open>int\<close> is unbounded (the interpreter's configurable
  limit on the length of integer strings is not modelled). A string is a list of bytes, and
  the builtins are modelled on ASCII text: the blanks and digits outside ASCII that
  \<^verbatim>\<open>int\<close> and \<^verbatim>\<open>float\<close> also accept are not modelled.
\<close>

datatype pyfloat = Finite bool nat int | Infinity bool | NaN

datatype scalar = PyStr string | PyInt int | PyFloat pyfloat

text \<open>
  The values that cross the store boundary: scalars and dictionaries with string keys. A
  dictionary is an association list in insertion order; its keys are distinct, and a
  lookup takes the first entry of a key.
\<close>

datatype pyval = Val scalar | Dict "(string \<times> pyval) list"

type_synonym item = "(string \<times> pyval) list"

text \<open>
  The blanks that \<^verbatim>\<open>int\<close> and \<^verbatim>\<open>float\<close> drop around an ASCII text: tab, line feed, vertical
  tab, form feed, carriage return and space.
\<close>

definition is_space :: "char \<Rightarrow> bool" where
  "is_space c = (let n = (of_char c :: nat) in (9 \<le> n \<and> n \<le> 13) \<or> n = 32)"

definition is_digit :: "char \<Rightarrow> bool" where
  "is_digit c = (let n = (of_char c :: nat) in 48 \<le> n \<and> n \<le> 57)"

definition digit_val :: "char \<Rightarrow> nat" where
  "digit_val c = of_char c - 48"

definition digit_char :: "nat \<Rightarrow> char" where
  "digit_char d = char_of (48 + d)"

definition lower :: "char \<Rightarrow> char" where
  "lower c = (let n = (of_char c :: nat) in if 65 \<le> n \<and> n \<le> 90 then char_of (n + 32) else c)"

definition py_strip :: "string \<Rightarrow> string" where
  "py_strip s = rev (dropWhile is_space (rev (dropWhile is_space s)))"

fun py_join :: "string \<Rightarrow> string list \<Rightarrow> string" where
  "py_join sep [] = []"
| "py_join sep [x] = x"
| "py_join sep (x # y # ys) = x @ sep @ py_join sep (y # ys)"

definition nat_of_digits :: "string \<Rightarrow> nat" where
  "nat_of_digits ds = foldl (\<lambda>a c. 10 * a + digit_val c) 0 ds"

text \<open>\<^verbatim>\<open>str(n)\<close> for an integer.\<close>

fun str_nat :: "nat \<Rightarrow> string" where
  "str_nat n = (if n < 10 then [digit_char n] else str_nat (n div 10) @ [digit_char (n mod 10)])"

declare str_nat.simps [simp del]

definition str_int :: "int \<Rightarrow> string" where
  "str_int i = (if i < 0 then CHR ''-'' # str_nat (nat (- i)) else str_nat (nat i))"

text \<open>
  \<^verbatim>\<open>int(s)\<close> in base 10: surrounding whitespace is dropped, a sign may come first, and the
  rest is digits, where single underscores may stand between two digits.
\<close>

definition split_sign :: "string \<Rightarrow> bool \<times> string" where
  "split_sign s =
     (case s of
        [] \<Rightarrow> (False, [])
      | c # cs \<Rightarrow> if c = CHR ''-'' then (True, cs)
                  else if c = CHR ''+'' then (False, cs)
                  else (False, s))"

fun digits_grouped :: "string \<Rightarrow> bool" where
  "digits_grouped [] = False"
| "digits_grouped [c] = is_digit c"
| "digits_grouped (c # d # cs) =
     (is_digit c \<and> (if d = CHR ''_'' then digits_grouped cs else digits_grouped (d # cs)))"

definition py_int :: "string \<Rightarrow> exn + int" where
  "py_int s =
     (let (neg, body) = split_sign (py_strip s)
      in if digits_grouped body
         then (let n = int (nat_of_digits (filter (\<lambda>c. c \<noteq> CHR ''_'') body))
               in Inr (if neg then - n else n))
         else Inl (InvalidLiteral s))"

text \<open>
  \<^verbatim>\<open>float(s)\<close>: surrounding whitespace is dropped; an underscore must stand between two
  digits; then a sign may come first, followed by \<^verbatim>\<open>inf\<close>, \<^verbatim>\<open>infinity\<close> or \<^verbatim>\<open>nan\<close> in any
  case, or by a decimal number with at least one digit before or after the point and an
  optional exponent.
\<close>

fun underscores_ok :: "char \<Rightarrow> string \<Rightarrow> bool" where
  "underscores_ok prev [] = (prev \<noteq> CHR ''_'')"
| "underscores_ok prev (c # cs) =
     ((if c = CHR ''_'' then is_digit prev
       else if prev = CHR ''_'' then is_digit c else True)
      \<and> underscores_ok c cs)"

fun normalize :: "nat \<Rightarrow> int \<Rightarrow> nat \<times> int" where
  "normalize m e =
     (if m = 0 then (0, 0)
      else if m mod 10 = 0 then normalize (m div 10) (e + 1)
      else (m, e))"

declare normalize.simps [simp del]

definition parse_exponent :: "string \<Rightarrow> int option" where
  "parse_exponent r =
     (case r of
        [] \<Rightarrow> Some 0
      | c # cs \<Rightarrow>
          if c = CHR ''e'' \<or> c = CHR ''E''
          then (let (eneg, ds) = split_sign cs
                in if ds \<noteq> [] \<and> list_all is_digit ds
                   then Some (if eneg then - int (nat_of_digits ds) else int (nat_of_digits ds))
                   else None)
          else None)"

definition parse_decimal :: "bool \<Rightarrow> string \<Rightarrow> pyfloat option" where
  "parse_decimal neg body =
     (let a = takeWhile is_digit body;
          r1 = dropWhile is_digit body;
          (b, r2) = (case r1 of
                       [] \<Rightarrow> ([], r1)
                     | c # cs \<Rightarrow> if c = CHR ''.''
                                 then (takeWhile is_digit cs, dropWhile is_digit cs)
                                 else ([], r1))
      in if a = [] \<and> b = [] then None
         else (case parse_exponent r2 of
                 None \<Rightarrow> None
               | Some x \<Rightarrow>
                   (let (m, e) = normalize (nat_of_digits (a @ b)) (x - int (length b))
                    in Some (Finite neg m e))))"

definition py_float :: "string \<Rightarrow> exn + pyfloat" where
  "py_float s =
     (let t = py_strip s
      in if \<not> underscores_ok (CHR 0x00) t then Inl (InvalidLiteral s)
         else
           (let (neg, body) = split_sign (filter (\<lambda>c. c \<noteq> CHR ''_'') t);
                word = map lower body
            in if word = ''inf'' \<or> word = ''infinity'' then Inr (Infinity neg)
               else if word = ''nan'' then Inr NaN
               else (case parse_decimal neg body of
                       None \<Rightarrow> Inl (InvalidLiteral s)
                     | Some f \<Rightarrow> Inr f)))"

text \<open>
  \<^verbatim>\<open>str(x)\<close> for a float: the digits \<open>ds\<close> of the shortest decimal and the position
  \<open>decpt\<close> of the decimal point relative to their start. The exponent form is used when
  \<open>decpt \<le> -4\<close> or \<open>decpt > 16\<close>; it has a point only when there is more than one digit.
  Otherwise the number is written in full, with \<^verbatim>\<open>.0\<close> appended to a whole number.
\<close>

definition pad2 :: "string \<Rightarrow> string" where
  "pad2 s = replicate (2 - length s) (CHR ''0'') @ s"

definition repr_digits :: "string \<Rightarrow> int \<Rightarrow> string" where
  "repr_digits ds decpt =
     (let n = int (length ds)
      in if decpt \<le> - 4 \<or> decpt > 16
         then hd ds # (if 1 < n then CHR ''.'' # tl ds else [])
              @ CHR ''e'' # (if decpt - 1 < 0 then CHR ''-'' else CHR ''+'')
              # pad2 (str_nat (nat \<bar>decpt - 1\<bar>))
         else if decpt \<le> 0 then ''0.'' @ replicate (nat (- decpt)) (CHR ''0'') @ ds
         else if n \<le> decpt then ds @ replicate (nat (decpt - n)) (CHR ''0'') @ ''.0''
         else take (nat decpt) ds @ ''.'' @ drop (nat decpt) ds)"

fun str_float :: "pyfloat \<Rightarrow> string" where
  "str_float (Finite neg m e) =
     (if neg then ''-'' else []) @ repr_digits (str_nat m) (int (length (str_nat m)) + e)"
| "str_float (Infinity neg) = (if neg then ''-inf'' else ''inf'')"
| "str_float NaN = ''nan''"

fun py_str :: "scalar \<Rightarrow> string" where
  "py_str (PyStr s) = s"
| "py_str (PyInt i) = str_int i"
| "py_str (PyFloat x) = str_float x"

text \<open>The floats that the model takes as values: the mantissa carries no trailing zero.\<close>

fun float_ok :: "pyfloat \<Rightarrow> bool" where
  "float_ok (Finite neg m e) = (if m = 0 then e = 0 else m mod 10 \<noteq> 0)"
| "float_ok (Infinity neg) = True"
| "float_ok NaN = True"

section \<open>app/auth.py\<close>

text \<open>
  Time is counted in whole seconds since the epoch, the resolution of the \<^verbatim>\<open>exp\<close> claim of a
  token. A \<^verbatim>\<open>timedelta\<close> is a number of seconds.

  The record \<open>process\<close> holds what a request handler can read: the wall clock at the time
  of the request, and the module globals, which are assigned once when the modules are
  imported. \<open>utc_now\<close> is the global of app/auth.py, line 7:
  \<^verbatim>\<open>utc_now = datetime.now(timezone.utc)\<close>, that is, the time of the import.
\<close>

record process =
  clock :: int
  utc_now :: int
  SECRET_KEY :: string
  ACCESS_TOKEN_EXPIRE_MINUTES :: int
  API_USERNAME :: string
  API_PASSWORD :: string

definition ALGORITHM :: string where
  "ALGORITHM = ''HS256''"

text \<open>
  The claims of a token: the dictionary \<^verbatim>\<open>{"sub": ..., "exp": ...}\<close>, either key may be
  missing.
\<close>

record payload =
  sub :: "string option"
  exp :: "int option"

text \<open>
  Tokens are symbolic: \<open>JWT alg claims key\<close> is the token with header algorithm \<open>alg\<close>
  and the given claims, signed with \<open>key\<close>; \<open>Malformed s\<close> is any other string. The
  library calls \<^verbatim>\<open>jwt.encode\<close> and \<^verbatim>\<open>jwt.decode\<close> (PyJWT) are modelled on such tokens:
  decoding checks, in this order, the form, the algorithm, the signature and the expiry
  (\<^verbatim>\<open>exp <= now\<close> raises \<^verbatim>\<open>ExpiredSignatureError\<close>). All four errors are subclasses of
  \<^verbatim>\<open>jwt.PyJWTError\<close>.
\<close>

datatype jwt = JWT string payload string | Malformed string

datatype PyJWTError =
  DecodeError | InvalidAlgorithmError | InvalidSignatureError | ExpiredSignatureError

definition jwt_encode :: "payload \<Rightarrow> string \<Rightarrow> string \<Rightarrow> jwt" where
  "jwt_encode claims key algorithm = JWT algorithm claims key"

fun jwt_decode :: "int \<Rightarrow> jwt \<Rightarrow> string \<Rightarrow> string list \<Rightarrow> PyJWTError + payload" where
  "jwt_decode now (Malformed s) key algorithms = Inl DecodeError"
| "jwt_decode now (JWT alg claims k) key algorithms =
     (if alg \<notin> set algorithms then Inl InvalidAlgorithmError
      else if k \<noteq> key then Inl InvalidSignatureError
      else case exp claims of
             None \<Rightarrow> Inr claims
           | Some e \<Rightarrow> if e \<le> now then Inl ExpiredSignatureError else Inr claims)"

definition timedelta_minutes :: "int \<Rightarrow> int" where
  "timedelta_minutes m = 60 * m"

text \<open>
  \<^verbatim>\<open>create_access_token(data, expires_delta=None)\<close>. The test \<^verbatim>\<open>if expires_delta:\<close> is false
  for \<^verbatim>\<open>None\<close> and for a zero \<^verbatim>\<open>timedelta\<close>.
\<close>

definition create_access_token :: "process \<Rightarrow> payload \<Rightarrow> int option \<Rightarrow> jwt" where
  "create_access_token p data expires_delta =
     (let to_encode = data;
          expire = (case expires_delta of
                      None \<Rightarrow> utc_now p + timedelta_minutes 15
                    | Some d \<Rightarrow> if d \<noteq> 0 then utc_now p + d
                               else utc_now p + timedelta_minutes 15);
          to_encode = to_encode\<lparr>exp := Some expire\<rparr>
      in jwt_encode to_encode (SECRET_KEY p) ALGORITHM)"

definition credentials_exception :: http_exception where
  "credentials_exception =
     HTTPException 401 (Text ''Could not validate credentials'')
       [(''WWW-Authenticate'', ''Bearer'')]"

definition verify_token :: "process \<Rightarrow> jwt \<Rightarrow> http_exception + string" where
  "verify_token p token =
     (case jwt_decode (clock p) token (SECRET_KEY p) [ALGORITHM] of
        Inl e \<Rightarrow> Inl credentials_exception
      | Inr claims \<Rightarrow>
          (case sub claims of
             None \<Rightarrow> Inl credentials_exception
           | Some username \<Rightarrow> Inr username))"

section \<open>app/main.py: the login route\<close>

record OAuth2PasswordRequestForm =
  username :: string
  password :: string

record Token =
  access_token :: jwt
  token_type :: string

definition login :: "process \<Rightarrow> OAuth2PasswordRequestForm \<Rightarrow> http_exception + Token" where
  "login p form_data =
     (if username form_data \<noteq> API_USERNAME p \<or> password form_data \<noteq> API_PASSWORD p
      then Inl (HTTPException 401 (Text ''Incorrect username or password'')
                  [(''WWW-Authenticate'', ''Bearer'')])
      else
        let access_token_expires = timedelta_minutes (ACCESS_TOKEN_EXPIRE_MINUTES p);
            tok = create_access_token p \<lparr>sub = Some (username form_data), exp = None\<rparr>
                    (Some access_token_expires)
        in Inr \<lparr>access_token = tok, token_type = ''bearer''\<rparr>)"

section \<open>app/main.py: typed attribute values\<close>

text \<open>
  \<^verbatim>\<open>deserialize_dynamodb_item(item)\<close>, lines 69 to 75. The membership test \<^verbatim>\<open>'S' in item\<close>
  looks for a key of a dictionary, and for a character of a string; subscripting a string
  with \<^verbatim>\<open>'S'\<close>, and testing membership in a number, raise \<^verbatim>\<open>TypeError\<close>, as do \<^verbatim>\<open>float\<close>
  and \<^verbatim>\<open>int\<close> of a dictionary.
\<close>

definition decode_number :: "pyval \<Rightarrow> exn + pyval" where
  "decode_number n =
     (case n of
        Val (PyStr s) \<Rightarrow>
          if CHR ''.'' \<in> set s
          then (case py_float s of Inl e \<Rightarrow> Inl e | Inr x \<Rightarrow> Inr (Val (PyFloat x)))
          else (case py_int s of Inl e \<Rightarrow> Inl e | Inr i \<Rightarrow> Inr (Val (PyInt i)))
      | Val (PyInt i) \<Rightarrow> Inl TypeError
      | Val (PyFloat x) \<Rightarrow> Inl TypeError
      | Dict d \<Rightarrow> Inl TypeError)"

definition deserialize_dynamodb_item :: "pyval \<Rightarrow> exn + pyval" where
  "deserialize_dynamodb_item item =
     (case item of
        Dict d \<Rightarrow>
          (case map_of d ''S'' of
             Some v \<Rightarrow> Inr v
           | None \<Rightarrow>
               (case map_of d ''N'' of
                  Some n \<Rightarrow> decode_number n
                | None \<Rightarrow> Inl (ValueError ''Unsupported DynamoDB data type'')))
      | Val (PyStr s) \<Rightarrow>
          if CHR ''S'' \<in> set s then Inl TypeError
          else if CHR ''N'' \<in> set s then Inl TypeError
          else Inl (ValueError ''Unsupported DynamoDB data type'')
      | Val (PyInt i) \<Rightarrow> Inl TypeError
      | Val (PyFloat x) \<Rightarrow> Inl TypeError)"

text \<open>
  The dictionary comprehension \<^verbatim>\<open>{k: deserialize_dynamodb_item(v) for k, v in attributes.items()}\<close>:
  the first value that fails to decode raises.
\<close>

fun deserialize_attributes :: "item \<Rightarrow> exn + item" where
  "deserialize_attributes [] = Inr []"
| "deserialize_attributes ((k, v) # kvs) =
     (case deserialize_dynamodb_item v of
        Inl e \<Rightarrow> Inl e
      | Inr x \<Rightarrow>
          (case deserialize_attributes kvs of
             Inl e \<Rightarrow> Inl e
           | Inr xs \<Rightarrow> Inr ((k, x) # xs)))"

text \<open>
  The typed encoding of one value, as the update routes write it (lines 195, 270, 381):
  \<^verbatim>\<open>{'S': v} if isinstance(v, str) else {'N': str(v)}\<close>. The create routes write the same two
  forms field by field.
\<close>

definition isinstance_str :: "scalar \<Rightarrow> bool" where
  "isinstance_str v = (case v of PyStr s \<Rightarrow> True | PyInt i \<Rightarrow> False | PyFloat x \<Rightarrow> False)"

definition attribute_value :: "scalar \<Rightarrow> pyval" where
  "attribute_value v =
     (if isinstance_str v then Dict [(''S'', Val v)]
      else Dict [(''N'', Val (PyStr (py_str v)))])"

section \<open>The store client\<close>

text \<open>
  The handlers call one operation of the store client each. An operation takes its keyword
  arguments and the state of the store, and returns the response, or the exception it
  raised, with the new state. A response is a dictionary, of which the handlers read the
  keys \<^verbatim>\<open>Item\<close> and \<^verbatim>\<open>Attributes\<close>, either of which may be absent.
\<close>

record response =
  Item :: "item option"
  Attributes :: "item option"

type_synonym 's item_op = "string \<Rightarrow> item \<Rightarrow> 's \<Rightarrow> (exn + response) \<times> 's"

type_synonym 's update_op =
  "string \<Rightarrow> item \<Rightarrow> string \<Rightarrow> item \<Rightarrow> string \<Rightarrow> 's \<Rightarrow> (exn + response) \<times> 's"

text \<open>
  A client that records the calls it receives, in order, and answers each with a given
  reply: its state is the list of calls so far.
\<close>

datatype call =
    PutItem string item
  | GetItem string item
  | DeleteItem string item
  | UpdateItem string item string item string

definition recording_put_item :: "(exn + response) \<Rightarrow> call list item_op" where
  "recording_put_item reply TableName it calls = (reply, calls @ [PutItem TableName it])"

definition recording_get_item :: "(exn + response) \<Rightarrow> call list item_op" where
  "recording_get_item reply TableName Key calls = (reply, calls @ [GetItem TableName Key])"

definition recording_delete_item :: "(exn + response) \<Rightarrow> call list item_op" where
  "recording_delete_item reply TableName Key calls = (reply, calls @ [DeleteItem TableName Key])"

definition recording_update_item :: "(exn + response) \<Rightarrow> call list update_op" where
  "recording_update_item reply TableName Key UpdateExpression ExpressionAttributeValues
       ReturnValues calls =
     (reply,
      calls @ [UpdateItem TableName Key UpdateExpression ExpressionAttributeValues ReturnValues])"

text \<open>
  Modelled from the spec: the backing store itself is not part of the repository. Section
  4.3 gives its contract: \<^verbatim>\<open>put\<close> writes a full item with no existence check and
  overwrites; \<^verbatim>\<open>getByKey\<close> is a point lookup, and an absent key gives an empty result, not
  an error; \<^verbatim>\<open>deleteByKey\<close> is idempotent. The key attributes of each table are those of
  section 3, which are also the keys the handlers pass. The state maps a table name to its
  items.
\<close>

definition key_schema :: "string \<Rightarrow> string list" where
  "key_schema TableName =
     (if TableName = ''Staff'' then [''staffID'']
      else if TableName = ''Shifts'' then [''shiftID'', ''startDate'']
      else if TableName = ''Expenses'' then [''expenseID'', ''date'']
      else [])"

definition same_key :: "string \<Rightarrow> item \<Rightarrow> item \<Rightarrow> bool" where
  "same_key TableName a b = list_all (\<lambda>k. map_of a k = map_of b k) (key_schema TableName)"

definition empty_response :: response where
  "empty_response = \<lparr>Item = None, Attributes = None\<rparr>"

definition store_put_item :: "(string \<Rightarrow> item list) item_op" where
  "store_put_item TableName it tables =
     (Inr empty_response,
      tables(TableName := it # filter (\<lambda>x. \<not> same_key TableName it x) (tables TableName)))"

definition store_get_item :: "(string \<Rightarrow> item list) item_op" where
  "store_get_item TableName Key tables =
     (Inr \<lparr>Item = find (same_key TableName Key) (tables TableName), Attributes = None\<rparr>,
      tables)"

definition store_delete_item :: "(string \<Rightarrow> item list) item_op" where
  "store_delete_item TableName Key tables =
     (Inr empty_response,
      tables(TableName := filter (\<lambda>x. \<not> same_key TableName Key x) (tables TableName)))"

definition empty_store :: "string \<Rightarrow> item list" where
  "empty_store = (\<lambda>TableName. [])"

section \<open>app/main.py: the resource handlers\<close>

text \<open>
  Each handler runs after the dependency \<^verbatim>\<open>verify_token\<close> has accepted the bearer token;
  the bodies do not read the token. A handler returns its response body, or the
  \<^verbatim>\<open>HTTPException\<close> it raises, with the new state of the store. The clause
  \<^verbatim>\<open>except Exception as e: raise HTTPException(status_code=500, detail=str(e))\<close> is
  \<open>internal_error\<close>.
\<close>

definition internal_error :: "exn \<Rightarrow> http_exception" where
  "internal_error e = HTTPException 500 (StrOf e) []"

definition AttrS :: "string \<Rightarrow> pyval" where
  "AttrS s = Dict [(''S'', Val (PyStr s))]"

definition AttrN :: "string \<Rightarrow> pyval" where
  "AttrN s = Dict [(''N'', Val (PyStr s))]"

definition message :: "string \<Rightarrow> pyval" where
  "message m = Dict [(''message'', Val (PyStr m))]"

record Staff =
  staffID :: string
  fullName :: string
  employmentType :: string
  jobTitle :: string
  hourlyRate :: pyfloat

record UpdateStaffRequest =
  updates :: "(string \<times> string) list"

definition create_staff ::
    "'s item_op \<Rightarrow> Staff \<Rightarrow> 's \<Rightarrow> (http_exception + pyval) \<times> 's" where
  "create_staff client_put_item staff st =
     (let it = [(''staffID'', AttrS (staffID staff)),
                (''fullName'', AttrS (fullName staff)),
                (''employmentType'', AttrS (employmentType staff)),
                (''jobTitle'', AttrS (jobTitle staff)),
                (''hourlyRate'', AttrN (str_float (hourlyRate staff)))]
      in case client_put_item ''Staff'' it st of
           (Inl e, st') \<Rightarrow> (Inl (internal_error e), st')
         | (Inr r, st') \<Rightarrow> (Inr (message ''Staff created successfully''), st'))"

text \<open>
  The body shared by the three get-by-key handlers, after the call:
  \<^verbatim>\<open>item = response.get('Item', None); return deserialize_dynamodb_item(item) if item else {}\<close>.
  The test \<^verbatim>\<open>if item\<close> fails for \<^verbatim>\<open>None\<close> and for an empty dictionary.
\<close>

definition return_item :: "(exn + response) \<Rightarrow> http_exception + pyval" where
  "return_item reply =
     (case reply of
        Inl e \<Rightarrow> Inl (internal_error e)
      | Inr r \<Rightarrow>
          (case Item r of
             None \<Rightarrow> Inr (Dict [])
           | Some it \<Rightarrow>
               if it = [] then Inr (Dict [])
               else (case deserialize_dynamodb_item (Dict it) of
                       Inl e \<Rightarrow> Inl (internal_error e)
                     | Inr v \<Rightarrow> Inr v)))"

definition get_staff ::
    "'s item_op \<Rightarrow> string \<Rightarrow> 's \<Rightarrow> (http_exception + pyval) \<times> 's" where
  "get_staff client_get_item staff_id st =
     (case client_get_item ''Staff'' [(''staffID'', AttrS staff_id)] st of
        (reply, st') \<Rightarrow> (return_item reply, st'))"

definition get_shift ::
    "'s item_op \<Rightarrow> string \<Rightarrow> string \<Rightarrow> 's \<Rightarrow> (http_exception + pyval) \<times> 's" where
  "get_shift client_get_item staff_id start_date st =
     (case client_get_item ''Shifts''
             [(''shiftID'', AttrS ''shift_id''), (''startDate'', AttrS start_date)] st of
        (reply, st') \<Rightarrow> (return_item reply, st'))"

definition get_expense ::
    "'s item_op \<Rightarrow> string \<Rightarrow> string \<Rightarrow> 's \<Rightarrow> (http_exception + pyval) \<times> 's" where
  "get_expense client_get_item expense_id date st =
     (case client_get_item ''Expenses''
             [(''expenseID'', AttrS expense_id), (''date'', AttrS date)] st of
        (reply, st') \<Rightarrow> (return_item reply, st'))"

text \<open>
  The update handlers. The request model \<^verbatim>\<open>UpdateStaffRequest\<close> declares
  \<^verbatim>\<open>updates: Dict[str, str]\<close>, so the test \<^verbatim>\<open>isinstance(updates, dict)\<close> holds and every
  value is a string. The expression and the values are built twice in the source, the second
  time with the typed values; the second assignment is the one passed to the store.
  \<^verbatim>\<open>update_staff\<close> makes its call after the \<^verbatim>\<open>async with\<close> block that opened the client,
  \<^verbatim>\<open>update_shift\<close> and \<^verbatim>\<open>update_expense\<close> inside it; what a client answers in either case
  is the operation passed to the handler.
\<close>

definition update_expression :: "(string \<times> string) list \<Rightarrow> string" where
  "update_expression upds = ''SET '' @ py_join '', '' (map (\<lambda>(k, v). k @ '' = :'' @ k) upds)"

definition expression_attribute_values :: "(string \<times> string) list \<Rightarrow> item" where
  "expression_attribute_values upds =
     map (\<lambda>(k, v). ('':'' @ k, attribute_value (PyStr v))) upds"

definition return_attributes :: "(exn + response) \<Rightarrow> http_exception + pyval" where
  "return_attributes reply =
     (case reply of
        Inl e \<Rightarrow> Inl (internal_error e)
      | Inr r \<Rightarrow>
          (case Attributes r of
             None \<Rightarrow> Inr (Dict [])
           | Some attributes \<Rightarrow>
               if attributes = [] then Inr (Dict [])
               else (case deserialize_attributes attributes of
                       Inl e \<Rightarrow> Inl (internal_error e)
                     | Inr d \<Rightarrow> Inr (Dict d))))"

definition update_staff ::
    "'s update_op \<Rightarrow> string \<Rightarrow> UpdateStaffRequest \<Rightarrow> 's \<Rightarrow> (http_exception + pyval) \<times> 's" where
  "update_staff client_update_item staff_id request st =
     (let upds = updates request
      in case client_update_item ''Staff'' [(''staffID'', AttrS staff_id)]
                (update_expression upds) (expression_attribute_values upds)
                ''UPDATED_NEW'' st of
           (reply, st') \<Rightarrow> (return_attributes reply, st'))"

definition update_shift ::
    "'s update_op \<Rightarrow> string \<Rightarrow> string \<Rightarrow> UpdateStaffRequest \<Rightarrow> 's
      \<Rightarrow> (http_exception + pyval) \<times> 's" where
  "update_shift client_update_item staff_id start_date request st =
     (let upds = updates request
      in case client_update_item ''Shifts''
                [(''shiftID'', AttrS ''shift_id''), (''startDate'', AttrS start_date)]
                (update_expression upds) (expression_attribute_values upds)
                ''UPDATED_NEW'' st of
           (reply, st') \<Rightarrow> (return_attributes reply, st'))"

definition update_expense ::
    "'s update_op \<Rightarrow> string \<Rightarrow> string \<Rightarrow> UpdateStaffRequest \<Rightarrow> 's
      \<Rightarrow> (http_exception + pyval) \<times> 's" where
  "update_expense client_update_item expense_id date request st =
     (let upds = updates request
      in case client_update_item ''Expenses''
                [(''expenseID'', AttrS expense_id), (''date'', AttrS date)]
                (update_expression upds) (expression_attribute_values upds)
                ''UPDATED_NEW'' st of
           (reply, st') \<Rightarrow> (return_attributes reply, st'))"

text \<open>The delete handlers.\<close>

definition return_deleted :: "string \<Rightarrow> (exn + response) \<Rightarrow> http_exception + pyval" where
  "return_deleted m reply =
     (case reply of
        Inl e \<Rightarrow> Inl (internal_error e)
      | Inr r \<Rightarrow> Inr (message m))"

definition delete_staff ::
    "'s item_op \<Rightarrow> string \<Rightarrow> 's \<Rightarrow> (http_exception + pyval) \<times> 's" where
  "delete_staff client_delete_item staff_id st =
     (case client_delete_item ''Staff'' [(''staffID'', AttrS staff_id)] st of
        (reply, st') \<Rightarrow> (return_deleted ''Staff deleted successfully'' reply, st'))"

definition delete_shift ::
    "'s item_op \<Rightarrow> string \<Rightarrow> string \<Rightarrow> 's \<Rightarrow> (http_exception + pyval) \<times> 's" where
  "delete_shift client_delete_item staff_id start_date st =
     (case client_delete_item ''Shifts''
             [(''shiftID'', AttrS ''shift_id''), (''startDate'', AttrS start_date)] st of
        (reply, st') \<Rightarrow> (return_deleted ''Shift deleted successfully'' reply, st'))"

definition delete_expense ::
    "'s item_op \<Rightarrow> string \<Rightarrow> string \<Rightarrow> 's \<Rightarrow> (http_exception + pyval) \<times> 's" where
  "delete_expense client_delete_item expense_id date st =
     (case client_delete_item ''Expenses''
             [(''expenseID'', AttrS expense_id), (''date'', AttrS date)] st of
        (reply, st') \<Rightarrow> (return_deleted ''Expense deleted successfully'' reply, st'))"

section \<open>Example inputs\<close>

text \<open>
  A process imported at time 0 with a configured lifetime of 15 minutes, handling a request
  one hour later.
\<close>

definition up_one_hour :: process where
  "up_one_hour =
     \<lparr>clock = 3600, utc_now = 0, SECRET_KEY = ''secret'',
      ACCESS_TOKEN_EXPIRE_MINUTES = 15, API_USERNAME = ''admin'', API_PASSWORD = ''pw''\<rparr>"

text \<open>The Staff record of the scenario of the specification; its hourly rate is 15.5.\<close>

definition staff_S1 :: Staff where
  "staff_S1 =
     \<lparr>staffID = ''S1'', fullName = ''Ann'', employmentType = ''FT'',
      jobTitle = ''Nurse'', hourlyRate = Finite False 155 (- 1)\<rparr>"

text \<open>
  A store whose table of shifts holds one item under the key that the Shift handlers send:
  the state an update of a shift of 2024-01-01 leaves when the store creates the item it
  is asked to update.
\<close>

definition store_with_shift :: "string \<Rightarrow> item list" where
  "store_with_shift =
     empty_store(''Shifts'' :=
       [[(''shiftID'', Dict [(''S'', Val (PyStr ''shift_id''))]),
         (''startDate'', Dict [(''S'', Val (PyStr ''2024-01-01''))]),
         (''house'', Dict [(''S'', Val (PyStr ''A''))])]])"

text \<open>A record with a string, an integer and a float field.\<close>

definition record_example :: "(string \<times> scalar) list" where
  "record_example =
     [(''staffID'', PyStr ''S1''), (''shifts'', PyInt 42),
      (''hourlyRate'', PyFloat (Finite False 155 (- 1)))]"

text \<open>An attribute value of the form \<^verbatim>\<open>{'S': text}\<close>.\<close>

definition string_tagged :: "pyval \<Rightarrow> bool" where
  "string_tagged a = (case a of Dict [(t, Val (PyStr s))] \<Rightarrow> t = ''S'' | _ \<Rightarrow> False)"

text \<open>
  A number whose text \<^verbatim>\<open>str\<close> tells its type: a string, an integer, or a float whose text
  has a decimal point.
\<close>

definition point_in_float :: "scalar \<Rightarrow> bool" where
  "point_in_float v =
     (case v of
        PyStr s \<Rightarrow> True
      | PyInt i \<Rightarrow> True
      | PyFloat x \<Rightarrow> float_ok x \<and> CHR ''.'' \<in> set (str_float x))"

text \<open>A record of scalar fields, each encoded as the typed attribute value of its field.\<close>

definition encode_record :: "(string \<times> scalar) list \<Rightarrow> item" where
  "encode_record kvs = map (\<lambda>(k, v). (k, attribute_value v)) kvs"

definition plain_record :: "(string \<times> scalar) list \<Rightarrow> item" where
  "plain_record kvs = map (\<lambda>(k, v). (k, Val v)) kvs"

section \<open>Properties of the Python builtins\<close>

text \<open>
  Digits, and the texts of integers: \<^verbatim>\<open>int(str(i)) == i\<close>, and the text of an integer has
  no decimal point.
\<close>

lemma of_char_digit_char: "d < 10 \<Longrightarrow> (of_char (digit_char d) :: nat) = 48 + d"
  by (simp add: digit_char_def)

lemma is_digit_digit_char: "d < 10 \<Longrightarrow> is_digit (digit_char d)"
  by (simp add: is_digit_def of_char_digit_char)

lemma digit_val_digit_char: "d < 10 \<Longrightarrow> digit_val (digit_char d) = d"
  by (simp add: digit_val_def of_char_digit_char)

lemma is_digit_not_special:
  assumes "is_digit c"
  shows "\<not> is_space c" and "c \<noteq> CHR ''_''" and "c \<noteq> CHR ''.''" and "c \<noteq> CHR ''-''"
    and "c \<noteq> CHR ''+''" and "c \<noteq> CHR ''e''" and "c \<noteq> CHR ''E''" and "lower c = c"
  using assms by (auto simp: is_digit_def is_space_def lower_def Let_def)

lemma digits_str_nat: "list_all is_digit (str_nat n)"
proof (induction n rule: str_nat.induct)
  case (1 n)
  show ?case
  proof (cases "n < 10")
    case True
    then show ?thesis by (subst str_nat.simps) (simp add: is_digit_digit_char)
  next
    case False
    with 1 show ?thesis by (subst str_nat.simps) (simp add: is_digit_digit_char)
  qed
qed

lemma str_nat_nonempty: "str_nat n \<noteq> []"
  by (subst str_nat.simps) simp

lemma nat_of_digits_snoc: "nat_of_digits (ds @ [c]) = 10 * nat_of_digits ds + digit_val c"
  by (simp add: nat_of_digits_def)

lemma nat_of_digits_Nil: "nat_of_digits [] = 0"
  by (simp add: nat_of_digits_def)

lemma nat_of_digits_append:
  "nat_of_digits (xs @ ys) = nat_of_digits xs * 10 ^ length ys + nat_of_digits ys"
proof (induction ys rule: rev_induct)
  case Nil
  then show ?case by (simp add: nat_of_digits_Nil)
next
  case (snoc y ys)
  have "nat_of_digits (xs @ ys @ [y]) = 10 * nat_of_digits (xs @ ys) + digit_val y"
    using nat_of_digits_snoc [of "xs @ ys" y] by simp
  with snoc show ?case by (simp add: nat_of_digits_snoc algebra_simps)
qed

lemma nat_of_digits_str_nat: "nat_of_digits (str_nat n) = n"
proof (induction n rule: str_nat.induct)
  case (1 n)
  show ?case
  proof (cases "n < 10")
    case True
    then show ?thesis
      by (subst str_nat.simps) (simp add: nat_of_digits_def digit_val_digit_char)
  next
    case False
    with 1 show ?thesis
      by (subst str_nat.simps) (simp add: nat_of_digits_snoc digit_val_digit_char)
  qed
qed

lemma foldl_zeros:
  "foldl (\<lambda>a c. 10 * a + digit_val c) a (replicate k (CHR ''0'')) = a * 10 ^ k"
  by (induction k arbitrary: a) (simp_all add: digit_val_def)

lemma nat_of_digits_zeros: "nat_of_digits (replicate k (CHR ''0'')) = 0"
  by (simp add: nat_of_digits_def foldl_zeros)

lemma no_space_strip: "list_all (\<lambda>c. \<not> is_space c) s \<Longrightarrow> py_strip s = s"
proof -
  assume a: "list_all (\<lambda>c. \<not> is_space c) s"
  have d: "dropWhile is_space xs = xs" if "list_all (\<lambda>c. \<not> is_space c) xs" for xs
    using that by (cases xs) simp_all
  have "list_all (\<lambda>c. \<not> is_space c) (rev s)" using a by (simp add: list_all_iff)
  then show ?thesis using a by (simp add: py_strip_def d)
qed

lemma digits_grouped_digits: "list_all is_digit ds \<Longrightarrow> ds \<noteq> [] \<Longrightarrow> digits_grouped ds"
  by (induction ds rule: digits_grouped.induct) (auto dest: is_digit_not_special(2))

lemma filter_underscore_digits:
  "list_all is_digit ds \<Longrightarrow> filter (\<lambda>c. c \<noteq> CHR ''_'') ds = ds"
  by (induction ds) (auto dest: is_digit_not_special(2))

lemma split_sign_digits:
  "list_all is_digit ds \<Longrightarrow> split_sign ds = (False, ds)"
  by (cases ds) (auto simp: split_sign_def dest: is_digit_not_special)

lemma digits_no_space: "list_all is_digit ds \<Longrightarrow> list_all (\<lambda>c. \<not> is_space c) ds"
  by (induction ds) (auto dest: is_digit_not_special(1))

lemma special_not_space:
  "\<not> is_space (CHR ''-'')" "\<not> is_space (CHR ''.'')" "\<not> is_space (CHR ''e'')"
  "\<not> is_space (CHR ''+'')"
  by (simp_all add: is_space_def)

lemma py_int_digits:
  assumes "list_all is_digit ds" and "ds \<noteq> []"
  shows "py_int ds = Inr (int (nat_of_digits ds))"
    and "py_int (CHR ''-'' # ds) = Inr (- int (nat_of_digits ds))"
proof -
  show "py_int ds = Inr (int (nat_of_digits ds))"
    using assms
    by (simp add: py_int_def no_space_strip digits_no_space split_sign_digits
        digits_grouped_digits filter_underscore_digits)
  have "list_all (\<lambda>c. \<not> is_space c) (CHR ''-'' # ds)"
    using assms by (simp add: digits_no_space special_not_space)
  then have "py_strip (CHR ''-'' # ds) = CHR ''-'' # ds" by (rule no_space_strip)
  then show "py_int (CHR ''-'' # ds) = Inr (- int (nat_of_digits ds))"
    using assms
    by (simp add: py_int_def split_sign_def digits_grouped_digits filter_underscore_digits)
qed

lemma py_int_str_int: "py_int (str_int i) = Inr i"
  by (simp add: str_int_def py_int_digits digits_str_nat str_nat_nonempty nat_of_digits_str_nat)

lemma no_point_digits: "list_all is_digit ds \<Longrightarrow> CHR ''.'' \<notin> set ds"
  by (induction ds) (auto dest: is_digit_not_special(3))

lemma no_point_str_int: "CHR ''.'' \<notin> set (str_int i)"
  using no_point_digits [OF digits_str_nat] by (simp add: str_int_def)

lemma not_digit_special:
  "\<not> is_digit (CHR ''.'')" "\<not> is_digit (CHR ''e'')" "\<not> is_digit (CHR ''-'')"
  "\<not> is_digit (CHR ''+'')" "\<not> is_digit (CHR ''i'')" "\<not> is_digit (CHR ''n'')"
  "is_digit (CHR ''0'')"
  by (simp_all add: is_digit_def)

lemma underscores_ok_none:
  "CHR ''_'' \<notin> set s \<Longrightarrow> p \<noteq> CHR ''_'' \<Longrightarrow> underscores_ok p s"
  by (induction s arbitrary: p) auto

lemma filter_no_underscore:
  "CHR ''_'' \<notin> set s \<Longrightarrow> filter (\<lambda>c. c \<noteq> CHR ''_'') s = s"
  by (induction s) auto

lemma parse_exponent_Nil: "parse_exponent [] = Some 0"
  by (simp add: parse_exponent_def)

lemma parse_exponent_signed:
  assumes "list_all is_digit ds" and "ds \<noteq> []"
  shows "parse_exponent (CHR ''e'' # CHR ''+'' # ds) = Some (int (nat_of_digits ds))"
    and "parse_exponent (CHR ''e'' # CHR ''-'' # ds) = Some (- int (nat_of_digits ds))"
  using assms by (simp_all add: parse_exponent_def split_sign_def)

lemma takeWhile_digits:
  assumes "list_all is_digit a" and "r = [] \<or> \<not> is_digit (hd r)"
  shows "takeWhile is_digit (a @ r) = a" and "dropWhile is_digit (a @ r) = r"
proof -
  have t: "takeWhile is_digit r = []" and d: "dropWhile is_digit r = r"
    using assms(2) by (cases r; simp)+
  from assms(1) have "\<And>x. x \<in> set a \<Longrightarrow> is_digit x" by (simp add: list_all_iff)
  then show "takeWhile is_digit (a @ r) = a" and "dropWhile is_digit (a @ r) = r"
    using t d by (simp_all add: takeWhile_append2 dropWhile_append2)
qed

lemma parse_decimal_point:
  assumes a: "list_all is_digit a" and b: "list_all is_digit b" and ne: "a \<noteq> [] \<or> b \<noteq> []"
    and r: "r = [] \<or> \<not> is_digit (hd r)" and x: "parse_exponent r = Some x"
  shows "parse_decimal neg (a @ CHR ''.'' # b @ r) =
           Some (case normalize (nat_of_digits (a @ b)) (x - int (length b)) of
                   (m, e) \<Rightarrow> Finite neg m e)"
proof -
  have 1: "takeWhile is_digit (a @ CHR ''.'' # b @ r) = a"
    and 2: "dropWhile is_digit (a @ CHR ''.'' # b @ r) = CHR ''.'' # b @ r"
    using takeWhile_digits [OF a, of "CHR ''.'' # b @ r"] by (simp_all add: not_digit_special)
  have 3: "takeWhile is_digit (b @ r) = b" and 4: "dropWhile is_digit (b @ r) = r"
    using takeWhile_digits [OF b r] by simp_all
  show ?thesis
    using ne x by (auto simp add: parse_decimal_def 1 2 3 4 Let_def split: prod.splits)
qed

lemma parse_decimal_exp:
  assumes a: "list_all is_digit a" and ne: "a \<noteq> []"
    and r: "r \<noteq> []" "hd r = CHR ''e''" and x: "parse_exponent r = Some x"
  shows "parse_decimal neg (a @ r) =
           Some (case normalize (nat_of_digits a) x of (m, e) \<Rightarrow> Finite neg m e)"
proof -
  obtain cs where rc: "r = CHR ''e'' # cs"
    using r by (cases r) auto
  have nd: "CHR ''e'' # cs = [] \<or> \<not> is_digit (hd (CHR ''e'' # cs))"
    by (simp add: not_digit_special)
  have 1: "takeWhile is_digit (a @ CHR ''e'' # cs) = a"
    and 2: "dropWhile is_digit (a @ CHR ''e'' # cs) = CHR ''e'' # cs"
    using takeWhile_digits [OF a nd] by simp_all
  show ?thesis
    using ne x unfolding rc
    by (auto simp add: parse_decimal_def 1 2 Let_def split: prod.splits)
qed

lemma normalize_zero: "normalize 0 e = (0, 0)"
  by (simp add: normalize.simps)

lemma normalize_id: "m mod 10 \<noteq> 0 \<Longrightarrow> normalize m e = (m, e)"
  by (subst normalize.simps) auto

lemma normalize_shift: "m mod 10 \<noteq> 0 \<Longrightarrow> normalize (m * 10 ^ j) e = (m, e + int j)"
proof (induction j arbitrary: e)
  case 0
  then show ?case by (simp add: normalize_id)
next
  case (Suc j)
  from Suc.prems have m: "m \<noteq> 0" by auto
  have "normalize (m * 10 ^ Suc j) e = normalize (m * 10 ^ j) (e + 1)"
    using m by (subst normalize.simps) simp
  with Suc show ?case by simp
qed

lemma pad2_digits:
  assumes "list_all is_digit s" and "s \<noteq> []"
  shows "list_all is_digit (pad2 s)" and "pad2 s \<noteq> []"
    and "nat_of_digits (pad2 s) = nat_of_digits s"
  using assms
  by (auto simp add: pad2_def not_digit_special list_all_iff nat_of_digits_append
      nat_of_digits_zeros)

lemma nat_of_digits_Cons:
  "nat_of_digits (c # xs) = digit_val c * 10 ^ length xs + nat_of_digits xs"
  using nat_of_digits_append [of "[c]" xs] by (simp add: nat_of_digits_def)

lemma digit_val_zero: "digit_val (CHR ''0'') = 0"
  by (simp add: digit_val_def)

lemma str_nat_zero: "str_nat 0 = [digit_char 0]"
  by (subst str_nat.simps) simp

lemma parse_repr_exponent:
  assumes m: "m mod 10 \<noteq> 0" and d: "d = int (length (str_nat m)) + e"
    and range: "d \<le> - 4 \<or> d > 16"
  shows "parse_decimal neg (repr_digits (str_nat m) d) = Some (Finite neg m e)"
proof -
  define ds where "ds = str_nat m"
  define pad where "pad = pad2 (str_nat (nat \<bar>d - 1\<bar>))"
  define r where "r = CHR ''e'' # (if d - 1 < 0 then CHR ''-'' else CHR ''+'') # pad"
  have dig: "list_all is_digit ds" and ne: "ds \<noteq> []" and val: "nat_of_digits ds = m"
    by (simp_all add: ds_def digits_str_nat str_nat_nonempty nat_of_digits_str_nat)
  have pad: "list_all is_digit pad" "pad \<noteq> []" "nat_of_digits pad = nat \<bar>d - 1\<bar>"
    using pad2_digits [OF digits_str_nat str_nat_nonempty, of "nat \<bar>d - 1\<bar>"]
    by (simp_all add: pad_def nat_of_digits_str_nat)
  have x: "parse_exponent r = Some (d - 1)"
    using parse_exponent_signed [OF pad(1,2)] pad(3) by (auto simp: r_def)
  have rh: "r \<noteq> []" "hd r = CHR ''e''" by (simp_all add: r_def)
  have body: "repr_digits ds d = hd ds # (if 1 < length ds then CHR ''.'' # tl ds else []) @ r"
    using range by (auto simp: repr_digits_def r_def pad_def Let_def)
  have split: "ds = hd ds # tl ds" using ne by simp
  show ?thesis
  proof (cases "1 < length ds")
    case True
    have a: "list_all is_digit [hd ds]" and b: "list_all is_digit (tl ds)"
      using dig ne by (cases ds; simp)+
    have "parse_decimal neg ([hd ds] @ CHR ''.'' # tl ds @ r) =
            Some (case normalize (nat_of_digits ([hd ds] @ tl ds)) (d - 1 - int (length (tl ds))) of
                    (m, e) \<Rightarrow> Finite neg m e)"
      by (rule parse_decimal_point [OF a b _ _ x]) (simp_all add: rh not_digit_special)
    moreover have "nat_of_digits ([hd ds] @ tl ds) = m" using split val by simp
    moreover have "d - 1 - int (length (tl ds)) = e" using d True by (simp add: ds_def)
    ultimately show ?thesis
      using True body by (simp add: ds_def [symmetric] normalize_id [OF m])
  next
    case False
    then have one: "length ds = 1" using ne by (cases ds) auto
    then have tl: "tl ds = []" by (cases ds) auto
    have "parse_decimal neg (ds @ r) =
            Some (case normalize (nat_of_digits ds) (d - 1) of (m, e) \<Rightarrow> Finite neg m e)"
      by (rule parse_decimal_exp [OF dig ne rh x])
    moreover have "d - 1 = e" using d one by (simp add: ds_def)
    moreover have "repr_digits ds d = ds @ r" using body False split tl by simp
    ultimately show ?thesis
      by (simp add: ds_def [symmetric] val normalize_id [OF m])
  qed
qed

lemma parse_repr_small:
  assumes m: "m mod 10 \<noteq> 0" and d: "d = int (length (str_nat m)) + e"
    and range: "- 4 < d" "d \<le> 0"
  shows "parse_decimal neg (repr_digits (str_nat m) d) = Some (Finite neg m e)"
proof -
  define ds where "ds = str_nat m"
  define zs where "zs = replicate (nat (- d)) (CHR ''0'')"
  have dig: "list_all is_digit ds" and ne: "ds \<noteq> []" and val: "nat_of_digits ds = m"
    by (simp_all add: ds_def digits_str_nat str_nat_nonempty nat_of_digits_str_nat)
  have zs: "list_all is_digit zs" "nat_of_digits zs = 0" "length zs = nat (- d)"
    by (simp_all add: zs_def list_all_iff not_digit_special nat_of_digits_zeros)
  have body: "repr_digits ds d = [CHR ''0''] @ CHR ''.'' # (zs @ ds) @ []"
    using range by (simp add: repr_digits_def zs_def Let_def)
  have a: "list_all is_digit [CHR ''0'']" by (simp add: not_digit_special)
  have b: "list_all is_digit (zs @ ds)" using zs dig by simp
  have "parse_decimal neg ([CHR ''0''] @ CHR ''.'' # (zs @ ds) @ []) =
          Some (case normalize (nat_of_digits ([CHR ''0''] @ zs @ ds)) (0 - int (length (zs @ ds))) of
                  (m, e) \<Rightarrow> Finite neg m e)"
    by (rule parse_decimal_point [OF a b _ _ parse_exponent_Nil]) simp_all
  moreover have "nat_of_digits ([CHR ''0''] @ zs @ ds) = m"
    by (simp add: nat_of_digits_Cons digit_val_zero nat_of_digits_append [of zs] zs val)
  moreover have "0 - int (length (zs @ ds)) = e"
    using d range by (simp add: zs ds_def)
  ultimately show ?thesis
    using body by (simp add: ds_def [symmetric] normalize_id [OF m])
qed

lemma parse_repr_whole:
  assumes ok: "if m = 0 then e = 0 else m mod 10 \<noteq> 0"
    and d: "d = int (length (str_nat m)) + e"
    and range: "d \<le> 16" "int (length (str_nat m)) \<le> d"
  shows "parse_decimal neg (repr_digits (str_nat m) d) = Some (Finite neg m e)"
proof -
  define ds where "ds = str_nat m"
  define k where "k = nat (d - int (length ds))"
  define zs where "zs = replicate k (CHR ''0'')"
  have dig: "list_all is_digit ds" and ne: "ds \<noteq> []" and val: "nat_of_digits ds = m"
    by (simp_all add: ds_def digits_str_nat str_nat_nonempty nat_of_digits_str_nat)
  have zs: "list_all is_digit zs" "nat_of_digits zs = 0" "length zs = k"
    by (simp_all add: zs_def list_all_iff not_digit_special nat_of_digits_zeros)
  have "1 \<le> int (length ds)" using ne by (cases ds) simp_all
  moreover have "int (length ds) \<le> d" using range(2) by (simp add: ds_def)
  ultimately have pos: "0 < d" by linarith
  have body: "repr_digits ds d = (ds @ zs) @ CHR ''.'' # [CHR ''0''] @ []"
    using range pos by (simp add: repr_digits_def zs_def k_def ds_def Let_def)
  have a: "list_all is_digit (ds @ zs)" using zs dig by simp
  have b: "list_all is_digit [CHR ''0'']" by (simp add: not_digit_special)
  have "parse_decimal neg ((ds @ zs) @ CHR ''.'' # [CHR ''0''] @ []) =
          Some (case normalize (nat_of_digits ((ds @ zs) @ [CHR ''0''])) (0 - int (length [CHR ''0''])) of
                  (m, e) \<Rightarrow> Finite neg m e)"
    by (rule parse_decimal_point [OF a b _ _ parse_exponent_Nil]) simp_all
  moreover have "nat_of_digits ((ds @ zs) @ [CHR ''0'']) = m * 10 ^ Suc k"
    by (simp add: nat_of_digits_snoc digit_val_zero nat_of_digits_append [of ds] zs val)
  moreover have "normalize (m * 10 ^ Suc k) (- 1) = (m, e)"
  proof (cases "m = 0")
    case True
    with ok show ?thesis by (simp add: normalize_zero)
  next
    case False
    with ok have m: "m mod 10 \<noteq> 0" by simp
    have "e = int k" using d range by (simp add: k_def ds_def)
    then show ?thesis using normalize_shift [OF m, of "Suc k" "- 1"] by simp
  qed
  ultimately show ?thesis
    using body by (simp add: ds_def [symmetric])
qed

lemma parse_repr_mixed:
  assumes m: "m mod 10 \<noteq> 0" and d: "d = int (length (str_nat m)) + e"
    and range: "0 < d" "d < int (length (str_nat m))" "d \<le> 16"
  shows "parse_decimal neg (repr_digits (str_nat m) d) = Some (Finite neg m e)"
proof -
  define ds where "ds = str_nat m"
  have dig: "list_all is_digit ds" and ne: "ds \<noteq> []" and val: "nat_of_digits ds = m"
    by (simp_all add: ds_def digits_str_nat str_nat_nonempty nat_of_digits_str_nat)
  have body: "repr_digits ds d = take (nat d) ds @ CHR ''.'' # drop (nat d) ds @ []"
    using range by (simp add: repr_digits_def ds_def Let_def)
  have a: "list_all is_digit (take (nat d) ds)" and b: "list_all is_digit (drop (nat d) ds)"
    using dig by (auto simp: list_all_iff dest: in_set_takeD in_set_dropD)
  have "take (nat d) ds \<noteq> []" using range ne by simp
  then have "parse_decimal neg (take (nat d) ds @ CHR ''.'' # drop (nat d) ds @ []) =
          Some (case normalize (nat_of_digits (take (nat d) ds @ drop (nat d) ds))
                       (0 - int (length (drop (nat d) ds))) of
                  (m, e) \<Rightarrow> Finite neg m e)"
    by (intro parse_decimal_point [OF a b _ _ parse_exponent_Nil]) simp_all
  moreover have "0 - int (length (drop (nat d) ds)) = e"
    using d range by (simp add: ds_def)
  ultimately show ?thesis
    using body by (simp add: ds_def [symmetric] val normalize_id [OF m])
qed

lemma parse_repr_digits:
  assumes ok: "if m = 0 then e = 0 else m mod 10 \<noteq> 0"
  shows "parse_decimal neg (repr_digits (str_nat m) (int (length (str_nat m)) + e)) =
           Some (Finite neg m e)"
proof -
  define d where "d = int (length (str_nat m)) + e"
  have d: "d = int (length (str_nat m)) + e" by (simp add: d_def)
  have one: "length (str_nat 0) = 1" by (simp add: str_nat_zero)
  consider (ex) "m \<noteq> 0" "d \<le> - 4 \<or> d > 16"
    | (small) "m \<noteq> 0" "- 4 < d" "d \<le> 0"
    | (mixed) "m \<noteq> 0" "0 < d" "d < int (length (str_nat m))" "d \<le> 16"
    | (whole) "d \<le> 16" "int (length (str_nat m)) \<le> d"
    using ok one d by (cases "m = 0") (auto; linarith)+
  then show ?thesis
  proof cases
    case ex
    with ok show ?thesis using parse_repr_exponent [OF _ d] by (simp add: d_def)
  next
    case small
    with ok show ?thesis using parse_repr_small [OF _ d] by (simp add: d_def)
  next
    case mixed
    with ok show ?thesis using parse_repr_mixed [OF _ d] by (simp add: d_def)
  next
    case whole
    then show ?thesis using parse_repr_whole [OF ok d] by (simp add: d_def)
  qed
qed

lemma repr_digits_chars:
  assumes "list_all is_digit ds" and "ds \<noteq> []"
  shows "set (repr_digits ds d) \<subseteq>
           Collect is_digit \<union> {CHR ''.'', CHR ''e'', CHR ''+'', CHR ''-''}"
proof -
  have pad: "set (pad2 (str_nat k)) \<subseteq> Collect is_digit" for k
    using pad2_digits(1) [OF digits_str_nat str_nat_nonempty, of k] by (auto simp: list_all_iff)
  have ds: "is_digit x" if "x \<in> set ds" for x
    using that assms(1) by (auto simp: list_all_iff)
  have h: "is_digit (hd ds)" using assms(2) by (auto intro: ds)
  have t: "is_digit x" if "x \<in> set (tl ds)" for x
    using that assms(2) by (auto intro: ds dest: list.set_sel(2))
  have tk: "is_digit x" if "x \<in> set (take n ds)" for x n
    using that by (auto intro: ds dest: in_set_takeD)
  have dr: "is_digit x" if "x \<in> set (drop n ds)" for x n
    using that by (auto intro: ds dest: in_set_dropD)
  show ?thesis
    using pad [of "nat \<bar>d - 1\<bar>"] h
    by (auto simp: repr_digits_def Let_def not_digit_special dest: ds t tk dr)
qed

lemma repr_digits_hd:
  assumes "list_all is_digit ds" and "ds \<noteq> []"
  shows "repr_digits ds d \<noteq> []" and "is_digit (hd (repr_digits ds d))"
proof -
  have h: "is_digit (hd ds)" using assms by (cases ds) simp_all
  show "repr_digits ds d \<noteq> []" using assms(2) by (auto simp: repr_digits_def Let_def)
  show "is_digit (hd (repr_digits ds d))"
    using h assms(2) by (auto simp: repr_digits_def Let_def not_digit_special hd_append)
qed

lemma plain_chars:
  assumes "set s \<subseteq> Collect is_digit \<union> {CHR ''.'', CHR ''e'', CHR ''+'', CHR ''-''}"
  shows "list_all (\<lambda>c. \<not> is_space c) s" and "CHR ''_'' \<notin> set s"
proof -
  show "list_all (\<lambda>c. \<not> is_space c) s"
    using assms by (auto simp: list_all_iff special_not_space dest: is_digit_not_special(1))
  show "CHR ''_'' \<notin> set s"
    using assms by (auto dest: is_digit_not_special(2))
qed

lemma py_float_signed_body:
  assumes chars: "set body \<subseteq> Collect is_digit \<union> {CHR ''.'', CHR ''e'', CHR ''+'', CHR ''-''}"
    and ne: "body \<noteq> []" and hd: "is_digit (hd body)"
    and parse: "parse_decimal neg body = Some x"
  shows "py_float ((if neg then ''-'' else []) @ body) = Inr x"
proof -
  define s where "s = (if neg then ''-'' else []) @ body"
  have s_chars: "set s \<subseteq> Collect is_digit \<union> {CHR ''.'', CHR ''e'', CHR ''+'', CHR ''-''}"
    using chars by (auto simp: s_def)
  have strip: "py_strip s = s" using plain_chars(1) [OF s_chars] by (rule no_space_strip)
  have us: "underscores_ok (CHR 0x00) s"
    using plain_chars(2) [OF s_chars] by (intro underscores_ok_none) simp_all
  have filt: "filter (\<lambda>c. c \<noteq> CHR ''_'') s = s"
    using plain_chars(2) [OF s_chars] by (rule filter_no_underscore)
  obtain c cs where body: "body = c # cs" and c: "is_digit c"
    using ne hd by (cases body) auto
  have sign: "split_sign s = (neg, body)"
    using c by (auto simp: s_def split_sign_def body dest: is_digit_not_special)
  have "lower c = c" using c by (rule is_digit_not_special)
  then have word: "map lower body \<noteq> ''inf''" "map lower body \<noteq> ''infinity''"
    "map lower body \<noteq> ''nan''"
    using c by (auto simp: body not_digit_special)
  show ?thesis
    using parse by (simp add: s_def [symmetric] py_float_def strip us filt sign word)
qed

lemma py_float_str_float:
  assumes "float_ok x"
  shows "py_float (str_float x) = Inr x"
proof (cases x)
  case (Finite neg m e)
  with assms have ok: "if m = 0 then e = 0 else m mod 10 \<noteq> 0" by simp
  define body where "body = repr_digits (str_nat m) (int (length (str_nat m)) + e)"
  have "py_float ((if neg then ''-'' else []) @ body) = Inr (Finite neg m e)"
    unfolding body_def
    by (rule py_float_signed_body
        [OF repr_digits_chars [OF digits_str_nat str_nat_nonempty]
          repr_digits_hd [OF digits_str_nat str_nat_nonempty]
          parse_repr_digits [OF ok]])
  then show ?thesis by (simp add: Finite body_def)
next
  case (Infinity neg)
  have "py_float ''inf'' = Inr (Infinity False)" and "py_float ''-inf'' = Inr (Infinity True)"
    by code_simp+
  then show ?thesis by (simp add: Infinity)
next
  case NaN
  have "py_float ''nan'' = Inr NaN" by code_simp
  then show ?thesis by (simp add: NaN)
qed


section \<open>Properties of the token service\<close>

lemma login_rejects_mismatch:
  assumes "username form_data \<noteq> API_USERNAME p \<or> password form_data \<noteq> API_PASSWORD p"
  shows "login p form_data =
           Inl (HTTPException 401 (Text ''Incorrect username or password'')
                  [(''WWW-Authenticate'', ''Bearer'')])"
  using assms by (simp add: login_def)

lemma login_token:
  assumes "username form_data = API_USERNAME p" and "password form_data = API_PASSWORD p"
  shows "login p form_data =
           Inr \<lparr>access_token =
                  JWT ''HS256''
                    \<lparr>sub = Some (username form_data),
                     exp = Some (utc_now p
                                 + 60 * (if ACCESS_TOKEN_EXPIRE_MINUTES p = 0 then 15
                                         else ACCESS_TOKEN_EXPIRE_MINUTES p))\<rparr>
                    (SECRET_KEY p),
                token_type = ''bearer''\<rparr>"
  using assms
  by (simp add: login_def create_access_token_def jwt_encode_def timedelta_minutes_def
      ALGORITHM_def Let_def)

text \<open>
  Claim C4. The claim: the expiry in the payload of an issued token is the time of issuance
  plus the configured lifetime. The code adds the lifetime to the global \<open>utc_now\<close>, which
  is assigned once, when app/auth.py is imported: whatever the time \<open>t\<close> of the login
  request, the expiry is the import time plus the lifetime in seconds (15 minutes when the
  configured lifetime is zero).
\<close>

theorem login_expiry_counts_from_import:
  assumes "username form_data = API_USERNAME p" and "password form_data = API_PASSWORD p"
  shows "login (p\<lparr>clock := t\<rparr>) form_data =
           Inr \<lparr>access_token =
                  JWT ''HS256''
                    \<lparr>sub = Some (username form_data),
                     exp = Some (utc_now p
                                 + 60 * (if ACCESS_TOKEN_EXPIRE_MINUTES p = 0 then 15
                                         else ACCESS_TOKEN_EXPIRE_MINUTES p))\<rparr>
                    (SECRET_KEY p),
                token_type = ''bearer''\<rparr>"
  using assms login_token [of form_data "p\<lparr>clock := t\<rparr>"] by simp

text \<open>
  In a process imported at time 0, a login one hour later (at 3600) gets a token that
  expires at 900, not at 3600 + 900 = 4500.
\<close>

theorem login_expiry_after_one_hour:
  "login (up_one_hour\<lparr>clock := 3600\<rparr>) \<lparr>username = ''admin'', password = ''pw''\<rparr> =
     Inr \<lparr>access_token = JWT ''HS256'' \<lparr>sub = Some ''admin'', exp = Some 900\<rparr> ''secret'',
          token_type = ''bearer''\<rparr>
   \<and> 3600 + 60 * ACCESS_TOKEN_EXPIRE_MINUTES up_one_hour = 4500"
  using login_expiry_counts_from_import
          [of "\<lparr>username = ''admin'', password = ''pw''\<rparr>" up_one_hour 3600]
  by (simp add: up_one_hour_def)

text \<open>
  Before the import time plus the lifetime, the token of a login is accepted and gives back
  the user name.
\<close>

lemma verify_after_login:
  assumes "username form_data = API_USERNAME p" and "password form_data = API_PASSWORD p"
    and "clock p < utc_now p + 60 * (if ACCESS_TOKEN_EXPIRE_MINUTES p = 0 then 15
                                      else ACCESS_TOKEN_EXPIRE_MINUTES p)"
  shows "\<exists>t. login p form_data = Inr t \<and>
               verify_token p (access_token t) = Inr (username form_data)"
  using assms
  by (simp add: login_token verify_token_def credentials_exception_def ALGORITHM_def)

text \<open>
  Claim C5. The claim: a login with the configured pair issues a token that
  \<open>verify_token\<close> maps back to the user name, and any other pair is refused with 401
  (\<open>login_rejects_mismatch\<close> above is the second half). The first half fails once the
  process has been up for the lifetime of a token: the token of a login with the
  configured pair is then refused with 401 at the very time it is issued.
\<close>

theorem login_token_refused_after_lifetime:
  assumes "username form_data = API_USERNAME p" and "password form_data = API_PASSWORD p"
    and "utc_now p + 60 * (if ACCESS_TOKEN_EXPIRE_MINUTES p = 0 then 15
                            else ACCESS_TOKEN_EXPIRE_MINUTES p) \<le> clock p"
  shows "\<exists>t. login p form_data = Inr t \<and>
               verify_token p (access_token t) =
                 Inl (HTTPException 401 (Text ''Could not validate credentials'')
                        [(''WWW-Authenticate'', ''Bearer'')])"
  using assms
  by (simp add: login_token verify_token_def credentials_exception_def ALGORITHM_def)

theorem login_token_refused_after_one_hour:
  "\<exists>t. login up_one_hour \<lparr>username = ''admin'', password = ''pw''\<rparr> = Inr t \<and>
        verify_token up_one_hour (access_token t) =
          Inl (HTTPException 401 (Text ''Could not validate credentials'')
                 [(''WWW-Authenticate'', ''Bearer'')])"
proof -
  have "utc_now up_one_hour
          + 60 * (if ACCESS_TOKEN_EXPIRE_MINUTES up_one_hour = 0 then 15
                  else ACCESS_TOKEN_EXPIRE_MINUTES up_one_hour) \<le> clock up_one_hour"
    by (simp add: up_one_hour_def)
  moreover have "username \<lparr>username = ''admin'', password = ''pw''\<rparr> = API_USERNAME up_one_hour"
    and "password \<lparr>username = ''admin'', password = ''pw''\<rparr> = API_PASSWORD up_one_hour"
    by (simp_all add: up_one_hour_def)
  ultimately show ?thesis
    using login_token_refused_after_lifetime
            [of "\<lparr>username = ''admin'', password = ''pw''\<rparr>" up_one_hour]
    by blast
qed

text \<open>
  Claim C8. A token whose expiry is earlier than the current time is refused with 401,
  whatever its algorithm and signing key, so also when it is signed with the secret of the
  process.
\<close>

theorem verify_token_rejects_expired:
  assumes "exp claims = Some e" and "e < clock p"
  shows "verify_token p (JWT alg claims k) =
           Inl (HTTPException 401 (Text ''Could not validate credentials'')
                  [(''WWW-Authenticate'', ''Bearer'')])"
  using assms by (simp add: verify_token_def credentials_exception_def)

theorem verify_token_rejects_expired_signed:
  "verify_token up_one_hour
     (JWT ''HS256'' \<lparr>sub = Some ''admin'', exp = Some 900\<rparr> (SECRET_KEY up_one_hour)) =
   Inl (HTTPException 401 (Text ''Could not validate credentials'')
          [(''WWW-Authenticate'', ''Bearer'')])"
proof -
  have "exp \<lparr>sub = Some ''admin'', exp = Some 900\<rparr> = Some 900" by simp
  moreover have "900 < clock up_one_hour" by (simp add: up_one_hour_def)
  ultimately show ?thesis by (rule verify_token_rejects_expired)
qed

section \<open>Properties of the resource handlers\<close>

lemma create_staff_S1:
  "create_staff store_put_item staff_S1 empty_store =
     (Inr (Dict [(''message'', Val (PyStr ''Staff created successfully''))]),
      empty_store(''Staff'' :=
        [[(''staffID'', Dict [(''S'', Val (PyStr ''S1''))]),
          (''fullName'', Dict [(''S'', Val (PyStr ''Ann''))]),
          (''employmentType'', Dict [(''S'', Val (PyStr ''FT''))]),
          (''jobTitle'', Dict [(''S'', Val (PyStr ''Nurse''))]),
          (''hourlyRate'', Dict [(''N'', Val (PyStr ''15.5''))])]]))"
proof -
  have "str_float (Finite False 155 (- 1)) = ''15.5''" by code_simp
  then show ?thesis
    by (simp add: create_staff_def store_put_item_def staff_S1_def empty_store_def
        AttrS_def AttrN_def message_def Let_def)
qed

text \<open>
  Claim C1. The claim: after a Staff record is created, get-by-key on its staffID returns
  the decoded record. The code passes the whole item, whose keys are the five attribute
  names, to \<open>deserialize_dynamodb_item\<close>, which looks for a key \<^verbatim>\<open>S\<close> or \<^verbatim>\<open>N\<close>: for
  every Staff record and every state of the store, the get after the create raises, and the
  route answers 500.
\<close>

theorem get_staff_after_create_fails:
  "get_staff store_get_item (staffID staff) (snd (create_staff store_put_item staff tables)) =
     (Inl (HTTPException 500 (StrOf (ValueError ''Unsupported DynamoDB data type'')) []),
      snd (create_staff store_put_item staff tables))"
  by (simp add: get_staff_def create_staff_def store_get_item_def store_put_item_def
      same_key_def key_schema_def return_item_def deserialize_dynamodb_item_def
      internal_error_def Let_def)

text \<open>
  The scenario of the specification: after the record S1 is created in an empty store, the
  get of S1 answers 500.
\<close>

theorem get_staff_S1_after_create_fails:
  "get_staff store_get_item ''S1'' (snd (create_staff store_put_item staff_S1 empty_store)) =
     (Inl (HTTPException 500 (StrOf (ValueError ''Unsupported DynamoDB data type'')) []),
      empty_store(''Staff'' :=
        [[(''staffID'', Dict [(''S'', Val (PyStr ''S1''))]),
          (''fullName'', Dict [(''S'', Val (PyStr ''Ann''))]),
          (''employmentType'', Dict [(''S'', Val (PyStr ''FT''))]),
          (''jobTitle'', Dict [(''S'', Val (PyStr ''Nurse''))]),
          (''hourlyRate'', Dict [(''N'', Val (PyStr ''15.5''))])]]))"
proof -
  have "staffID staff_S1 = ''S1''" by (simp add: staff_S1_def)
  then show ?thesis
    using get_staff_after_create_fails [of staff_S1 empty_store] create_staff_S1 by simp
qed

text \<open>
  Claim C2. The claim: the Shift and Expense handlers look up the composite key built from
  the caller's parameters. The three Shift handlers send the constant string
  \<^verbatim>\<open>'shift_id'\<close> as the shiftID of the key, whatever the caller supplies; only the start
  date comes from the request.
\<close>

theorem shift_handlers_send_placeholder_key:
  "snd (get_shift (recording_get_item reply) staff_id start_date []) =
     [GetItem ''Shifts'' [(''shiftID'', AttrS ''shift_id''), (''startDate'', AttrS start_date)]]
   \<and> snd (update_shift (recording_update_item reply) staff_id start_date request []) =
     [UpdateItem ''Shifts''
        [(''shiftID'', AttrS ''shift_id''), (''startDate'', AttrS start_date)]
        (update_expression (updates request)) (expression_attribute_values (updates request))
        ''UPDATED_NEW'']
   \<and> snd (delete_shift (recording_delete_item reply) staff_id start_date []) =
     [DeleteItem ''Shifts''
        [(''shiftID'', AttrS ''shift_id''), (''startDate'', AttrS start_date)]]"
  by (simp add: get_shift_def update_shift_def delete_shift_def recording_get_item_def
      recording_update_item_def recording_delete_item_def Let_def)

text \<open>
  A get of the shift \<^verbatim>\<open>SH1\<close> of 2024-01-01 looks up the shiftID \<^verbatim>\<open>shift_id\<close>.
\<close>

theorem get_shift_SH1_key:
  "snd (get_shift (recording_get_item (Inr empty_response)) ''SH1'' ''2024-01-01'' []) =
     [GetItem ''Shifts''
        [(''shiftID'', Dict [(''S'', Val (PyStr ''shift_id''))]),
         (''startDate'', Dict [(''S'', Val (PyStr ''2024-01-01''))])]]"
  using shift_handlers_send_placeholder_key
          [of "Inr empty_response" "''SH1''" "''2024-01-01''"]
  by (simp add: AttrS_def)

text \<open>The Expense handlers send the key built from both parameters of the caller.\<close>

lemma expense_handlers_send_caller_key:
  "snd (get_expense (recording_get_item reply) expense_id date []) =
     [GetItem ''Expenses'' [(''expenseID'', AttrS expense_id), (''date'', AttrS date)]]
   \<and> snd (update_expense (recording_update_item reply) expense_id date request []) =
     [UpdateItem ''Expenses'' [(''expenseID'', AttrS expense_id), (''date'', AttrS date)]
        (update_expression (updates request)) (expression_attribute_values (updates request))
        ''UPDATED_NEW'']
   \<and> snd (delete_expense (recording_delete_item reply) expense_id date []) =
     [DeleteItem ''Expenses'' [(''expenseID'', AttrS expense_id), (''date'', AttrS date)]]"
  by (simp add: get_expense_def update_expense_def delete_expense_def recording_get_item_def
      recording_update_item_def recording_delete_item_def Let_def)

text \<open>
  Claim C3, as amended. The encoder classifies a value by its type, not by its content: a
  string is encoded \<^verbatim>\<open>{'S': value}\<close>, an integer or a float \<^verbatim>\<open>{'N': str(value)}\<close>. The
  values of an update request are strings, so each is encoded \<^verbatim>\<open>{'S': value}\<close> under the
  placeholder of its field, whatever its text.
\<close>

theorem attribute_value_by_type:
  "attribute_value (PyStr s) = Dict [(''S'', Val (PyStr s))]
   \<and> attribute_value (PyInt i) = Dict [(''N'', Val (PyStr (str_int i)))]
   \<and> attribute_value (PyFloat x) = Dict [(''N'', Val (PyStr (str_float x)))]
   \<and> expression_attribute_values upds =
       map (\<lambda>(k, v). ('':'' @ k, Dict [(''S'', Val (PyStr v))])) upds"
  by (simp add: attribute_value_def isinstance_str_def expression_attribute_values_def)

text \<open>
  The claim as stated fails: the value \<^verbatim>\<open>"16"\<close> consists of digits only, and the update of
  the field \<^verbatim>\<open>general\<close> of an expense with it sends the string-typed \<^verbatim>\<open>{'S': '16'}\<close>.
\<close>

theorem numeric_text_sent_as_string:
  "list_all is_digit ''16'' \<and>
   snd (update_expense (recording_update_item (Inr empty_response)) ''E1'' ''2024-01-01''
          \<lparr>updates = [(''general'', ''16'')]\<rparr> []) =
     [UpdateItem ''Expenses''
        [(''expenseID'', Dict [(''S'', Val (PyStr ''E1''))]),
         (''date'', Dict [(''S'', Val (PyStr ''2024-01-01''))])]
        ''SET general = :general''
        [('':general'', Dict [(''S'', Val (PyStr ''16''))])] ''UPDATED_NEW'']"
  by (simp add: update_expense_def recording_update_item_def update_expression_def
      expression_attribute_values_def attribute_value_def isinstance_str_def is_digit_def
      AttrS_def)

text \<open>
  Claim C6, as amended. The update handlers do not check for an empty mapping: with no
  updates, each of them issues one store call, with the instruction \<^verbatim>\<open>"SET "\<close> and no
  attribute values, and answers with what the reply of the store gives; an error of the
  store is answered with 500 and the text of the error.
\<close>

theorem empty_updates_reach_store:
  "update_staff (recording_update_item reply) staff_id \<lparr>updates = []\<rparr> calls =
     (return_attributes reply,
      calls @ [UpdateItem ''Staff'' [(''staffID'', AttrS staff_id)] ''SET '' [] ''UPDATED_NEW''])
   \<and> update_shift (recording_update_item reply) staff_id start_date \<lparr>updates = []\<rparr> calls =
     (return_attributes reply,
      calls @ [UpdateItem ''Shifts''
                 [(''shiftID'', AttrS ''shift_id''), (''startDate'', AttrS start_date)]
                 ''SET '' [] ''UPDATED_NEW''])
   \<and> update_expense (recording_update_item reply) expense_id date \<lparr>updates = []\<rparr> calls =
     (return_attributes reply,
      calls @ [UpdateItem ''Expenses'' [(''expenseID'', AttrS expense_id), (''date'', AttrS date)]
                 ''SET '' [] ''UPDATED_NEW''])
   \<and> return_attributes (Inl e) = Inl (HTTPException 500 (StrOf e) [])
   \<and> return_attributes (Inr (r\<lparr>Attributes := None\<rparr>)) = Inr (Dict [])
   \<and> return_attributes (Inr (r\<lparr>Attributes := Some []\<rparr>)) = Inr (Dict [])"
  by (simp add: update_staff_def update_shift_def update_expense_def recording_update_item_def
      update_expression_def expression_attribute_values_def return_attributes_def
      internal_error_def)

text \<open>
  The claim as stated fails: with an empty mapping, the Expense update raises nothing
  before the call, the store receives the instruction \<^verbatim>\<open>"SET "\<close>, and when the store
  answers without attributes the route returns an empty object.
\<close>

theorem empty_updates_expense_call:
  "update_expense (recording_update_item (Inr empty_response)) ''E1'' ''2024-01-01''
     \<lparr>updates = []\<rparr> [] =
     (Inr (Dict []),
      [UpdateItem ''Expenses''
         [(''expenseID'', Dict [(''S'', Val (PyStr ''E1''))]),
          (''date'', Dict [(''S'', Val (PyStr ''2024-01-01''))])]
         ''SET '' [] ''UPDATED_NEW''])"
  by (simp add: update_expense_def recording_update_item_def update_expression_def
      expression_attribute_values_def return_attributes_def empty_response_def AttrS_def)

text \<open>
  When the store answers a get-by-key without an item, each handler returns the empty
  object as its normal result (status 200), not an error. For Staff and Expense the key
  looked up is the caller's.
\<close>

lemma get_by_key_no_item_returns_empty:
  assumes "Item r = None"
  shows "(client_get_item ''Staff'' [(''staffID'', AttrS staff_id)] st = (Inr r, st')
            \<longrightarrow> get_staff client_get_item staff_id st = (Inr (Dict []), st'))
       \<and> (client_get_item ''Expenses'' [(''expenseID'', AttrS expense_id), (''date'', AttrS date)] st
            = (Inr r, st')
            \<longrightarrow> get_expense client_get_item expense_id date st = (Inr (Dict []), st'))
       \<and> (client_get_item ''Shifts''
              [(''shiftID'', AttrS ''shift_id''), (''startDate'', AttrS start_date)] st
            = (Inr r, st')
            \<longrightarrow> get_shift client_get_item staff_id start_date st = (Inr (Dict []), st'))"
  using assms by (simp add: get_staff_def get_expense_def get_shift_def return_item_def)

lemma get_staff_unknown:
  "get_staff store_get_item ''unknown'' empty_store = (Inr (Dict []), empty_store)
   \<and> get_expense store_get_item ''E1'' ''2024-01-01'' empty_store = (Inr (Dict []), empty_store)"
  by (simp add: get_staff_def get_expense_def return_item_def store_get_item_def
      empty_store_def)

text \<open>
  Claim C9. The claim: a get-by-key of a key that is absent from the store returns the
  empty object with status 200. It fails for Shift: the handler looks up the key of claim
  C2, with the constant \<^verbatim>\<open>'shift_id'\<close>, whatever key the caller asks for. When the store
  holds an item under that key, the get of any shift of that date finds it, passes the
  whole item to \<open>deserialize_dynamodb_item\<close> as in claim C1, and answers 500.
\<close>

theorem get_shift_finds_placeholder_item:
  assumes "find (same_key ''Shifts''
                   [(''shiftID'', AttrS ''shift_id''), (''startDate'', AttrS start_date)])
             (tables ''Shifts'') = Some it"
    and "it \<noteq> []" and "map_of it ''S'' = None" and "map_of it ''N'' = None"
  shows "get_shift store_get_item staff_id start_date tables =
           (Inl (HTTPException 500 (StrOf (ValueError ''Unsupported DynamoDB data type'')) []),
            tables)"
  using assms
  by (simp add: get_shift_def store_get_item_def return_item_def
      deserialize_dynamodb_item_def internal_error_def)

text \<open>
  The store holds no shift \<^verbatim>\<open>unknown\<close> of 2024-01-01, and the get of that shift answers
  500, not the empty object.
\<close>

theorem get_shift_unknown_fails:
  "find (same_key ''Shifts''
           [(''shiftID'', AttrS ''unknown''), (''startDate'', AttrS ''2024-01-01'')])
     (store_with_shift ''Shifts'') = None
   \<and> get_shift store_get_item ''unknown'' ''2024-01-01'' store_with_shift =
       (Inl (HTTPException 500 (StrOf (ValueError ''Unsupported DynamoDB data type'')) []),
        store_with_shift)"
proof -
  let ?it = "[(''shiftID'', Dict [(''S'', Val (PyStr ''shift_id''))]),
              (''startDate'', Dict [(''S'', Val (PyStr ''2024-01-01''))]),
              (''house'', Dict [(''S'', Val (PyStr ''A''))])]"
  have f: "find (same_key ''Shifts''
                   [(''shiftID'', AttrS ''shift_id''), (''startDate'', AttrS ''2024-01-01'')])
             (store_with_shift ''Shifts'') = Some ?it"
    by (simp add: store_with_shift_def empty_store_def same_key_def key_schema_def AttrS_def)
  have a: "find (same_key ''Shifts''
                   [(''shiftID'', AttrS ''unknown''), (''startDate'', AttrS ''2024-01-01'')])
             (store_with_shift ''Shifts'') = None"
    by (simp add: store_with_shift_def empty_store_def same_key_def key_schema_def AttrS_def)
  have "get_shift store_get_item ''unknown'' ''2024-01-01'' store_with_shift =
       (Inl (HTTPException 500 (StrOf (ValueError ''Unsupported DynamoDB data type'')) []),
        store_with_shift)"
    using get_shift_finds_placeholder_item
            [where tables = store_with_shift and start_date = "''2024-01-01''"
               and it = ?it and staff_id = "''unknown''"] f
    by simp
  with a show ?thesis by simp
qed

text \<open>
  Claim C10. In each of the three update handlers, the attribute values sent to the store
  are those of the request's updates, each tagged \<^verbatim>\<open>S\<close>: the branch that writes the tag
  \<^verbatim>\<open>N\<close> is never taken, as every value of the request is a string.
\<close>

theorem update_values_string_tagged:
  "list_all (\<lambda>kv. string_tagged (snd kv)) (expression_attribute_values (updates request))
   \<and> snd (update_staff (recording_update_item reply) staff_id request []) =
       [UpdateItem ''Staff'' [(''staffID'', AttrS staff_id)] (update_expression (updates request))
          (expression_attribute_values (updates request)) ''UPDATED_NEW'']
   \<and> snd (update_shift (recording_update_item reply) staff_id start_date request []) =
       [UpdateItem ''Shifts''
          [(''shiftID'', AttrS ''shift_id''), (''startDate'', AttrS start_date)]
          (update_expression (updates request))
          (expression_attribute_values (updates request)) ''UPDATED_NEW'']
   \<and> snd (update_expense (recording_update_item reply) expense_id date request []) =
       [UpdateItem ''Expenses'' [(''expenseID'', AttrS expense_id), (''date'', AttrS date)]
          (update_expression (updates request))
          (expression_attribute_values (updates request)) ''UPDATED_NEW'']"
proof -
  have "list_all (\<lambda>kv. string_tagged (snd kv)) (expression_attribute_values upds)" for upds
    by (induction upds)
      (auto simp: expression_attribute_values_def attribute_value_def isinstance_str_def
        string_tagged_def)
  then show ?thesis
    by (simp add: update_staff_def update_shift_def update_expense_def
        recording_update_item_def Let_def)
qed

theorem update_values_string_tagged_example:
  "list_all (\<lambda>kv. string_tagged (snd kv))
     (expression_attribute_values
        (updates \<lparr>updates = [(''hourlyRate'', ''16.0''), (''fullName'', ''Ann'')]\<rparr>))"
  using update_values_string_tagged
          [of "\<lparr>updates = [(''hourlyRate'', ''16.0''), (''fullName'', ''Ann'')]\<rparr>"]
  by simp

section \<open>Properties of the typed encoding\<close>

lemma decode_encoded_scalar:
  assumes "point_in_float v"
  shows "deserialize_dynamodb_item (attribute_value v) = Inr (Val v)"
proof (cases v)
  case (PyStr s)
  then show ?thesis
    by (simp add: attribute_value_def isinstance_str_def deserialize_dynamodb_item_def)
next
  case (PyInt i)
  then show ?thesis
    by (simp add: attribute_value_def isinstance_str_def deserialize_dynamodb_item_def
        decode_number_def no_point_str_int py_int_str_int)
next
  case (PyFloat x)
  with assms have "float_ok x" and "CHR ''.'' \<in> set (str_float x)"
    by (simp_all add: point_in_float_def)
  then show ?thesis
    by (simp add: PyFloat attribute_value_def isinstance_str_def deserialize_dynamodb_item_def
        decode_number_def py_float_str_float)
qed

text \<open>
  Claim C7, as amended. A record whose fields are strings, integers, or floats whose text
  has a decimal point decodes, field by field, to the original values. An \<^verbatim>\<open>S\<close> value
  decodes to the value it holds. An \<^verbatim>\<open>N\<close> text without a decimal point is decoded by
  \<^verbatim>\<open>int\<close>: to an integer when the text is an integer literal, to a failure otherwise. An
  \<^verbatim>\<open>N\<close> text with a decimal point is decoded by \<^verbatim>\<open>float\<close>. A value with neither tag is the
  failure \<^verbatim>\<open>ValueError("Unsupported DynamoDB data type")\<close>.
\<close>

theorem encode_decode_round_trip:
  "(list_all (\<lambda>kv. point_in_float (snd kv)) kvs \<longrightarrow>
      deserialize_attributes (encode_record kvs) = Inr (plain_record kvs))
   \<and> deserialize_dynamodb_item (Dict [(''S'', v)]) = Inr v
   \<and> (CHR ''.'' \<notin> set t \<longrightarrow>
        deserialize_dynamodb_item (Dict [(''N'', Val (PyStr t))]) =
          (case py_int t of Inl err \<Rightarrow> Inl err | Inr i \<Rightarrow> Inr (Val (PyInt i))))
   \<and> (CHR ''.'' \<in> set t \<longrightarrow>
        deserialize_dynamodb_item (Dict [(''N'', Val (PyStr t))]) =
          (case py_float t of Inl err \<Rightarrow> Inl err | Inr x \<Rightarrow> Inr (Val (PyFloat x))))
   \<and> (map_of d ''S'' = None \<and> map_of d ''N'' = None \<longrightarrow>
        deserialize_dynamodb_item (Dict d) =
          Inl (ValueError ''Unsupported DynamoDB data type''))"
proof -
  have "deserialize_attributes (encode_record kvs) = Inr (plain_record kvs)"
    if "list_all (\<lambda>kv. point_in_float (snd kv)) kvs"
    using that
    by (induction kvs) (auto simp: encode_record_def plain_record_def decode_encoded_scalar)
  then show ?thesis
    by (simp add: deserialize_dynamodb_item_def decode_number_def)
qed

text \<open>
  The record \<^verbatim>\<open>{staffID: "S1", shifts: 42, hourlyRate: 15.5}\<close> comes back as it was; the
  text \<^verbatim>\<open>42\<close> decodes to an integer and \<^verbatim>\<open>15.5\<close> to a float; a binary value is refused.
\<close>

theorem encode_decode_example:
  "deserialize_attributes
     [(''staffID'', Dict [(''S'', Val (PyStr ''S1''))]),
      (''shifts'', Dict [(''N'', Val (PyStr ''42''))]),
      (''hourlyRate'', Dict [(''N'', Val (PyStr ''15.5''))])]
   = Inr [(''staffID'', Val (PyStr ''S1'')), (''shifts'', Val (PyInt 42)),
          (''hourlyRate'', Val (PyFloat (Finite False 155 (- 1))))]
   \<and> deserialize_dynamodb_item (Dict [(''N'', Val (PyStr ''42''))]) = Inr (Val (PyInt 42))
   \<and> deserialize_dynamodb_item (Dict [(''N'', Val (PyStr ''15.5''))]) =
       Inr (Val (PyFloat (Finite False 155 (- 1))))
   \<and> deserialize_dynamodb_item (Dict [(''B'', Val (PyStr ''AAEC''))]) =
       Inl (ValueError ''Unsupported DynamoDB data type'')"
proof -
  have h: "list_all (\<lambda>kv. point_in_float (snd kv)) record_example" by code_simp
  have e: "encode_record record_example =
     [(''staffID'', Dict [(''S'', Val (PyStr ''S1''))]),
      (''shifts'', Dict [(''N'', Val (PyStr ''42''))]),
      (''hourlyRate'', Dict [(''N'', Val (PyStr ''15.5''))])]" by code_simp
  have i: "py_int ''42'' = Inr 42" by code_simp
  have f: "py_float ''15.5'' = Inr (Finite False 155 (- 1))" by code_simp
  have pl: "plain_record record_example =
     [(''staffID'', Val (PyStr ''S1'')), (''shifts'', Val (PyInt 42)),
      (''hourlyRate'', Val (PyFloat (Finite False 155 (- 1))))]"
    by (simp add: plain_record_def record_example_def)
  have p: "CHR ''.'' \<notin> set ''42''" "CHR ''.'' \<in> set ''15.5''" by simp_all
  have m: "map_of [(''B'', Val (PyStr ''AAEC''))] ''S'' = None \<and>
           map_of [(''B'', Val (PyStr ''AAEC''))] ''N'' = None" by simp
  have 1: "deserialize_attributes (encode_record record_example) =
             Inr (plain_record record_example)"
    and 2: "deserialize_dynamodb_item (Dict [(''N'', Val (PyStr ''42''))]) =
          (case py_int ''42'' of Inl err \<Rightarrow> Inl err | Inr i \<Rightarrow> Inr (Val (PyInt i)))"
    and 3: "deserialize_dynamodb_item (Dict [(''B'', Val (PyStr ''AAEC''))]) =
       Inl (ValueError ''Unsupported DynamoDB data type'')"
    using encode_decode_round_trip
            [of record_example _ "''42''" "[(''B'', Val (PyStr ''AAEC''))]"]
      h p(1) m by blast+
  have 4: "deserialize_dynamodb_item (Dict [(''N'', Val (PyStr ''15.5''))]) =
          (case py_float ''15.5'' of Inl err \<Rightarrow> Inl err | Inr x \<Rightarrow> Inr (Val (PyFloat x)))"
    using encode_decode_round_trip
            [of record_example _ "''15.5''" "[(''B'', Val (PyStr ''AAEC''))]"]
      p(2) by blast
  show ?thesis
    unfolding 1 [unfolded e pl] 2 3 4 i f by simp
qed

text \<open>
  The claim as stated fails for a float whose text has no decimal point: \<^verbatim>\<open>1e16\<close> is
  written \<^verbatim>\<open>1e+16\<close>, which is then handed to \<^verbatim>\<open>int\<close> and refused.
\<close>

theorem float_without_point_fails:
  "float_ok (Finite False 1 16) \<and> str_float (Finite False 1 16) = ''1e+16'' \<and>
   deserialize_attributes (encode_record [(''hourlyRate'', PyFloat (Finite False 1 16))]) =
     Inl (InvalidLiteral ''1e+16'')"
  by code_simp

end
